theory Spec2Isabelle
  imports Complex_Main
begin

section \<open>The Roessler integrator of rossler.py\<close>

text \<open>
  The numerical core of \<^verbatim>\<open>rossler.py\<close>: the vector field \<^verbatim>\<open>du\<close>, the Runge-Kutta
  step \<^verbatim>\<open>rk4_step\<close>, the driver \<^verbatim>\<open>for_loop\<close> inside \<^verbatim>\<open>integrate\<close>, and the entry point
  \<^verbatim>\<open>rossler\<close> that builds the time grid, the zero buffer and the resulting data frame.

  Python floats are idealised as the reals: rounding, infinities and NaN are not part
  of the model. Everything else follows the source line by line: exceptions are values
  of a sum type, the in-place update of the buffer is explicit state passing, negative
  indices wrap around as numpy's do.
\<close>

subsection \<open>Exceptions\<close>

datatype error = ZeroDivisionError | ValueError | IndexError

definition bind_err :: "error + 'a \<Rightarrow> ('a \<Rightarrow> error + 'b) \<Rightarrow> error + 'b" where
  "bind_err m f = (case m of Inl e \<Rightarrow> Inl e | Inr v \<Rightarrow> f v)"

subsection \<open>Python and numpy primitives used by the module\<close>

text \<open>\<^verbatim>\<open>T / dt\<close> on floats raises on a zero divisor.\<close>

definition truediv :: "real \<Rightarrow> real \<Rightarrow> error + real" where
  "truediv p q = (if q = 0 then Inl ZeroDivisionError else Inr (p / q))"

text \<open>\<^verbatim>\<open>int(v)\<close> on a float truncates towards zero.\<close>

definition py_int :: "real \<Rightarrow> int" where
  "py_int v = (if 0 \<le> v then \<lfloor>v\<rfloor> else \<lceil>v\<rceil>)"

text \<open>\<^verbatim>\<open>range(n)\<close>: the indices \<open>0, ..., n - 1\<close>, none when \<open>n \<le> 0\<close>.\<close>

definition py_range :: "int \<Rightarrow> int list" where
  "py_range n = map int [0 ..< nat n]"

text \<open>
  \<^verbatim>\<open>a[i]\<close> and \<^verbatim>\<open>a[i] = v\<close> along the first axis of an array: a negative index counts
  from the end, an index outside the array raises.
\<close>

definition getitem :: "'a list \<Rightarrow> int \<Rightarrow> error + 'a" where
  "getitem a i =
     (let k = (if i < 0 then i + int (length a) else i)
      in if 0 \<le> k \<and> k < int (length a) then Inr (a ! nat k) else Inl IndexError)"

definition setitem :: "'a list \<Rightarrow> int \<Rightarrow> 'a \<Rightarrow> error + 'a list" where
  "setitem a i v =
     (let k = (if i < 0 then i + int (length a) else i)
      in if 0 \<le> k \<and> k < int (length a) then Inr (a[nat k := v]) else Inl IndexError)"

text \<open>\<^verbatim>\<open>np.zeros(n)\<close>: \<open>n\<close> zeros; a negative dimension is refused.\<close>

definition zeros :: "int \<Rightarrow> error + real list" where
  "zeros n = (if n < 0 then Inl ValueError else Inr (replicate (nat n) 0))"

text \<open>
  \<^verbatim>\<open>np.linspace(start, stop, num)\<close> with the default \<^verbatim>\<open>endpoint=True\<close>, as numpy
  computes it: a negative \<open>num\<close> is refused; the samples are \<open>arange(0, num)\<close> scaled by
  \<open>step = (stop - start) / (num - 1)\<close> when \<open>num > 1\<close> (by \<open>stop - start\<close> otherwise, where
  the only sample is \<open>0\<close>), shifted by \<open>start\<close>, and the last sample is overwritten with
  \<open>stop\<close> when \<open>num > 1\<close>.
\<close>

definition linspace :: "real \<Rightarrow> real \<Rightarrow> int \<Rightarrow> error + real list" where
  "linspace start stop num =
     (if num < 0 then Inl ValueError
      else
        let divisor = num - 1;
            y = map real [0 ..< nat num];
            delta = stop - start;
            y1 = (if num > 1 then map (\<lambda>v. v * (delta / real_of_int divisor)) y
                  else map (\<lambda>v. v * delta) y);
            y2 = map (\<lambda>v. v + start) y1
        in Inr (if num > 1 then y2[nat num - 1 := stop] else y2))"

subsection \<open>States and arrays of states\<close>

text \<open>
  A state is an array of shape \<open>(3,)\<close>; the arithmetic of the step broadcasts a scalar
  over it.
\<close>

type_synonym vec3 = "real \<times> real \<times> real"

fun smul :: "real \<Rightarrow> vec3 \<Rightarrow> vec3" where
  "smul k (p, q, r) = (k * p, k * q, k * r)"

fun sdiv :: "vec3 \<Rightarrow> real \<Rightarrow> vec3" where
  "sdiv (p, q, r) k = (p / k, q / k, r / k)"

fun vadd :: "vec3 \<Rightarrow> vec3 \<Rightarrow> vec3" where
  "vadd (p, q, r) (p', q', r') = (p + p', q + q', r + r')"

text \<open>
  \<^verbatim>\<open>np.transpose\<close> between the \<open>(3, n)\<close> array of the three coordinate rows and the
  \<open>(n, 3)\<close> array of states.
\<close>

definition transpose_3n :: "real list \<times> real list \<times> real list \<Rightarrow> vec3 list" where
  "transpose_3n u_p = (case u_p of (x, y, z) \<Rightarrow> zip x (zip y z))"

definition transpose_n3 :: "vec3 list \<Rightarrow> real list \<times> real list \<times> real list" where
  "transpose_n3 u = (map fst u, map (fst \<circ> snd) u, map (snd \<circ> snd) u)"

text \<open>The data frame returned by \<^verbatim>\<open>rossler\<close>: four columns and the index.\<close>

record dataframe =
  df_index :: "real list"
  df_t :: "real list"
  df_x :: "real list"
  df_y :: "real list"
  df_z :: "real list"

subsection \<open>The vector field\<close>

fun du :: "vec3 \<Rightarrow> real \<Rightarrow> vec3" where
  "du (m0, m1, m2) c =
     (let a = 0.2; b = 0.2
      in (- m1 - m2, m0 + a * m1, b + m2 * (m0 - c)))"

subsection \<open>The Runge-Kutta step and the driver loop\<close>

text \<open>
  \<^verbatim>\<open>rk4_step\<close> and \<^verbatim>\<open>for_loop\<close> are closures of \<^verbatim>\<open>integrate\<close>; the captured \<open>c\<close> is their
  first argument here.
\<close>

definition rk4_step :: "real \<Rightarrow> vec3 \<Rightarrow> real \<Rightarrow> real \<Rightarrow> vec3" where
  "rk4_step c u_prev delta_t t_current =
     (let K1 = smul delta_t (du u_prev c);
          K2 = smul delta_t (du (vadd u_prev (sdiv K1 2)) c);
          K3 = smul delta_t (du (vadd u_prev (sdiv K2 2)) c);
          K4 = smul delta_t (du (vadd u_prev K3) c)
      in vadd u_prev (sdiv (vadd (vadd (vadd K1 (smul 2 K2)) (smul 2 K3)) K4) 6))"

text \<open>
  One pass of the loop body for each index of \<^verbatim>\<open>range(n)\<close>, in order, on the buffer
  \<open>u\<close> that the source updates in place.
\<close>

primrec for_loop_iter :: "real \<Rightarrow> real \<Rightarrow> int list \<Rightarrow> vec3 list \<Rightarrow> error + vec3 list" where
  "for_loop_iter c delta_t [] u = Inr u"
| "for_loop_iter c delta_t (i # rest) u =
     (let t_current = delta_t * real_of_int i
      in bind_err (getitem u (i - 1)) (\<lambda>u_prev.
         bind_err (setitem u i (rk4_step c u_prev delta_t t_current)) (\<lambda>u'.
         for_loop_iter c delta_t rest u')))"

definition for_loop :: "real \<Rightarrow> vec3 list \<Rightarrow> real \<Rightarrow> int \<Rightarrow> error + vec3 list" where
  "for_loop c u delta_t n = for_loop_iter c delta_t (py_range n) u"

definition integrate :: "vec3 list \<Rightarrow> real \<Rightarrow> int \<Rightarrow> real \<Rightarrow> error + vec3 list" where
  "integrate u delta_t n c = for_loop c u delta_t n"

subsection \<open>The entry point\<close>

text \<open>Lines 32 to 36 of \<^verbatim>\<open>rossler\<close>: the zero-initialised buffer of \<open>n\<close> states.\<close>

definition initial_buffer :: "int \<Rightarrow> error + vec3 list" where
  "initial_buffer n =
     bind_err (zeros n) (\<lambda>x.
     bind_err (zeros n) (\<lambda>y.
     bind_err (zeros n) (\<lambda>z.
     let u_p = (x, y, z) in Inr (transpose_3n u_p))))"

definition rossler :: "real \<Rightarrow> real \<Rightarrow> real \<Rightarrow> error + dataframe" where
  "rossler c T dt =
     bind_err (truediv T dt) (\<lambda>q.
     let n = py_int q in
     bind_err (linspace 0 T n) (\<lambda>t_vals.
     bind_err (initial_buffer n) (\<lambda>u.
     bind_err (integrate u dt n c) (\<lambda>soln_p.
     let soln = transpose_n3 soln_p in
     Inr \<lparr>df_index = t_vals, df_t = t_vals,
          df_x = fst soln, df_y = fst (snd soln), df_z = snd (snd soln)\<rparr>))))"

text \<open>Row \<open>i\<close> of a data frame, and its number of rows.\<close>

definition row :: "dataframe \<Rightarrow> nat \<Rightarrow> vec3" where
  "row df i = (df_x df ! i, df_y df ! i, df_z df ! i)"


subsection \<open>Reference definitions\<close>

text \<open>
  The classical fourth-order Runge-Kutta update as the specification words it, for an
  arbitrary field: \<open>K1 = dt * field(s, c)\<close>, \<open>K2 = dt * field(s + K1/2, c)\<close>,
  \<open>K3 = dt * field(s + K2/2, c)\<close>, \<open>K4 = dt * field(s + K3, c)\<close>, and the next state
  \<open>s + (K1 + 2*K2 + 2*K3 + K4) / 6\<close>. It is compared with \<open>rk4_step\<close> below.
\<close>

definition rk4_classical :: "(vec3 \<Rightarrow> real \<Rightarrow> vec3) \<Rightarrow> vec3 \<Rightarrow> real \<Rightarrow> real \<Rightarrow> vec3" where
  "rk4_classical field state_prev dt c =
     (let K1 = smul dt (field state_prev c);
          K2 = smul dt (field (vadd state_prev (sdiv K1 2)) c);
          K3 = smul dt (field (vadd state_prev (sdiv K2 2)) c);
          K4 = smul dt (field (vadd state_prev K3) c)
      in vadd state_prev (sdiv (vadd (vadd (vadd K1 (smul 2 K2)) (smul 2 K3)) K4) 6))"

text \<open>
  The states that \<open>n\<close> successive steps reach from the origin: entry \<open>j\<close> is the origin
  advanced \<open>j + 1\<close> times. The loop is shown to fill a zero buffer with exactly these.
\<close>

definition orbit :: "real \<Rightarrow> real \<Rightarrow> nat \<Rightarrow> vec3 list" where
  "orbit c dt n = map (\<lambda>j. ((\<lambda>s. rk4_step c s dt 0) ^^ Suc j) (0, 0, 0)) [0 ..< n]"

section \<open>Properties of the loop and of the entry point\<close>

lemma rk4_step_time: "rk4_step c u dt t1 = rk4_step c u dt t2"
  by (simp add: rk4_step_def)

text \<open>One step from the state \<open>(1, 1, 1)\<close> with \<open>c = 5\<close> and \<open>dt = 0.01\<close>.\<close>

lemma rk4_step_example:
  "rk4_step 5 (1, 1, 1) 0.01 0 =
     (235230745708491953 / 240000000000000000, 2023824740143 / 2000000000000,
      462074004546952189414738267 / 480000000000000000000000000)"
  by (simp add: rk4_step_def)

lemma getitem_prev:
  "0 < k \<Longrightarrow> k \<le> length u \<Longrightarrow> getitem u (int k - 1) = Inr (u ! (k - 1))"
  by (auto simp: getitem_def Let_def nat_diff_distrib' )

lemma getitem_wrap:
  "0 < length u \<Longrightarrow> getitem u (0 - 1) = Inr (u ! (length u - 1))"
  by (auto simp: getitem_def Let_def nat_diff_distrib')

lemma setitem_in:
  "k < length u \<Longrightarrow> setitem u (int k) v = Inr (u[k := v])"
  by (simp add: setitem_def)

lemma for_loop_iter_from:
  "0 < k \<Longrightarrow> k \<le> n \<Longrightarrow> length u = n \<Longrightarrow>
   for_loop_iter c dt (map int [k ..< n]) u =
     Inr (take k u @ map (\<lambda>j. ((\<lambda>s. rk4_step c s dt 0) ^^ (Suc j - k)) (u ! (k - 1))) [k ..< n])"
proof (induction "n - k" arbitrary: k u)
  case 0
  then show ?case by simp
next
  case (Suc d)
  then have kn: "k < n" by simp
  define f where "f = (\<lambda>s. rk4_step c s dt 0)"
  define w where "w = u ! (k - 1)"
  define u' where "u' = u[k := f w]"
  have len: "length u' = n" and at_k: "u' ! (Suc k - 1) = f w"
    using kn Suc.prems by (simp_all add: u'_def)
  have "rk4_step c w dt (dt * real k) = f w"
    unfolding f_def by (rule rk4_step_time)
  then have step: "for_loop_iter c dt (map int [k ..< n]) u = for_loop_iter c dt (map int [Suc k ..< n]) u'"
    using kn Suc.prems getitem_prev [of k u] setitem_in [of k u]
    by (simp add: upt_conv_Cons bind_err_def u'_def w_def)
  have ih: "for_loop_iter c dt (map int [Suc k ..< n]) u' =
     Inr (take (Suc k) u' @ map (\<lambda>j. (f ^^ (Suc j - Suc k)) (u' ! (Suc k - 1))) [Suc k ..< n])"
    unfolding f_def using Suc.hyps(1)[of "Suc k" u'] Suc.hyps(2) len kn by simp
  have tk: "take (Suc k) u' = take k u @ [f w]"
    using kn Suc.prems by (simp add: take_Suc_conv_app_nth u'_def)
  have m: "map (\<lambda>j. (f ^^ (Suc j - Suc k)) (f w)) [Suc k ..< n]
         = map (\<lambda>j. (f ^^ (Suc j - k)) w) [Suc k ..< n]"
    by (auto simp: Suc_diff_le funpow_Suc_right simp del: funpow.simps)
  have "[k ..< n] = k # [Suc k ..< n]"
    using kn by (simp add: upt_conv_Cons)
  then have "take k u @ map (\<lambda>j. (f ^^ (Suc j - k)) w) [k ..< n]
      = take (Suc k) u' @ map (\<lambda>j. (f ^^ (Suc j - Suc k)) (u' ! (Suc k - 1))) [Suc k ..< n]"
    unfolding tk at_k m by simp
  then show ?case
    unfolding step ih f_def w_def by simp
qed

lemma for_loop_last_slot:
  assumes "length u = n" and "0 < n"
  shows "for_loop c u dt (int n) =
     Inr (map (\<lambda>j. ((\<lambda>s. rk4_step c s dt 0) ^^ Suc j) (u ! (n - 1))) [0 ..< n])"
proof -
  define f where "f = (\<lambda>s. rk4_step c s dt 0)"
  define w where "w = u ! (n - 1)"
  define u' where "u' = u[0 := f w]"
  have len: "length u' = n" and at_0: "u' ! (1 - 1) = f w"
    using assms by (simp_all add: u'_def)
  have up: "[0 ..< n] = 0 # [1 ..< n]"
    using assms by (simp add: upt_conv_Cons)
  have "rk4_step c w dt (dt * real_of_int 0) = f w"
    unfolding f_def by (rule rk4_step_time)
  then have step: "for_loop c u dt (int n) = for_loop_iter c dt (map int [1 ..< n]) u'"
    using assms getitem_wrap [of u] setitem_in [of 0 u]
    by (simp add: for_loop_def py_range_def up bind_err_def u'_def w_def)
  have rest: "for_loop_iter c dt (map int [1 ..< n]) u' =
     Inr (take 1 u' @ map (\<lambda>j. (f ^^ (Suc j - 1)) (u' ! (1 - 1))) [1 ..< n])"
    unfolding f_def using for_loop_iter_from [of 1 n u' c dt] len assms by simp
  have tk: "take 1 u' = [f w]"
    using assms by (cases u) (simp_all add: u'_def)
  have m: "map (\<lambda>j. (f ^^ (Suc j - 1)) (f w)) [1 ..< n] = map (\<lambda>j. (f ^^ Suc j) w) [1 ..< n]"
    by (auto simp: funpow_Suc_right simp del: funpow.simps)
  have "map (\<lambda>j. (f ^^ Suc j) w) [0 ..< n] = take 1 u' @ map (\<lambda>j. (f ^^ (Suc j - 1)) (u' ! (1 - 1))) [1 ..< n]"
    unfolding tk at_0 m by (subst up) simp
  then show ?thesis
    unfolding step rest f_def w_def by simp
qed

lemma for_loop_empty: "n \<le> 0 \<Longrightarrow> for_loop c u dt n = Inr u"
  by (simp add: for_loop_def py_range_def)


lemma length_orbit: "length (orbit c dt n) = n"
  by (simp add: orbit_def)

lemma orbit_0: "0 < n \<Longrightarrow> orbit c dt n ! 0 = rk4_step c (0, 0, 0) dt t"
  using rk4_step_time [of c "(0, 0, 0)" dt 0 t] by (simp add: orbit_def)


lemma initial_buffer_zeros: "0 \<le> n \<Longrightarrow> initial_buffer n = Inr (replicate (nat n) (0, 0, 0))"
  by (simp add: initial_buffer_def zeros_def bind_err_def transpose_3n_def zip_replicate)

lemma initial_buffer_neg: "n < 0 \<Longrightarrow> initial_buffer n = Inl ValueError"
  by (simp add: initial_buffer_def zeros_def bind_err_def)

lemma integrate_zeros: "integrate (replicate n (0, 0, 0)) dt (int n) c = Inr (orbit c dt n)"
proof (cases "n = 0")
  case True
  then show ?thesis by (simp add: integrate_def for_loop_empty orbit_def)
next
  case False
  then show ?thesis
    using for_loop_last_slot [of "replicate n (0, 0, 0)" n c dt]
    by (simp add: integrate_def orbit_def)
qed

lemma linspace_length: "0 \<le> n \<Longrightarrow> \<exists>ts. linspace a b n = Inr ts \<and> length ts = nat n"
  by (simp add: linspace_def Let_def)


lemma rossler_returns:
  assumes "dt \<noteq> 0" and "0 \<le> py_int (T / dt)" and "linspace 0 T (py_int (T / dt)) = Inr ts"
  shows "rossler c T dt =
    Inr \<lparr>df_index = ts, df_t = ts,
         df_x = map fst (orbit c dt (nat (py_int (T / dt)))),
         df_y = map (fst \<circ> snd) (orbit c dt (nat (py_int (T / dt)))),
         df_z = map (snd \<circ> snd) (orbit c dt (nat (py_int (T / dt))))\<rparr>"
  using assms integrate_zeros [of "nat (py_int (T / dt))" dt c]
  by (simp add: rossler_def truediv_def bind_err_def Let_def initial_buffer_zeros transpose_n3_def)

lemma row_orbit:
  "i < n \<Longrightarrow> row \<lparr>df_index = ts, df_t = ts', df_x = map fst (orbit c dt n),
       df_y = map (fst \<circ> snd) (orbit c dt n), df_z = map (snd \<circ> snd) (orbit c dt n)\<rparr> i
     = orbit c dt n ! i"
  by (simp add: row_def length_orbit)

lemma py_int_pos: "0 < T \<Longrightarrow> 0 < dt \<Longrightarrow> py_int (T / dt) = \<lfloor>T / dt\<rfloor> \<and> 0 \<le> \<lfloor>T / dt\<rfloor>"
  by (simp add: py_int_def)

lemma rossler_valid:
  assumes "0 < T" and "0 < dt"
  shows "\<exists>ts. linspace 0 T \<lfloor>T / dt\<rfloor> = Inr ts \<and> length ts = nat \<lfloor>T / dt\<rfloor> \<and>
    rossler c T dt =
      Inr \<lparr>df_index = ts, df_t = ts,
           df_x = map fst (orbit c dt (nat \<lfloor>T / dt\<rfloor>)),
           df_y = map (fst \<circ> snd) (orbit c dt (nat \<lfloor>T / dt\<rfloor>)),
           df_z = map (snd \<circ> snd) (orbit c dt (nat \<lfloor>T / dt\<rfloor>))\<rparr>"
proof -
  have p: "py_int (T / dt) = \<lfloor>T / dt\<rfloor>" and nn: "0 \<le> \<lfloor>T / dt\<rfloor>"
    using py_int_pos [OF assms] by simp_all
  obtain ts where ts: "linspace 0 T \<lfloor>T / dt\<rfloor> = Inr ts" "length ts = nat \<lfloor>T / dt\<rfloor>"
    using linspace_length [OF nn, of 0 T] by blast
  have "dt \<noteq> 0" using assms by simp
  then show ?thesis
    using rossler_returns [of dt T ts c] ts nn p by simp
qed

lemma rossler_rows:
  assumes "0 < T" and "0 < dt"
  shows "\<exists>df. rossler c T dt = Inr df \<and>
     (\<forall>i < nat \<lfloor>T / dt\<rfloor>. row df i = orbit c dt (nat \<lfloor>T / dt\<rfloor>) ! i)"
proof -
  obtain ts where
    "rossler c T dt =
      Inr \<lparr>df_index = ts, df_t = ts,
           df_x = map fst (orbit c dt (nat \<lfloor>T / dt\<rfloor>)),
           df_y = map (fst \<circ> snd) (orbit c dt (nat \<lfloor>T / dt\<rfloor>)),
           df_z = map (snd \<circ> snd) (orbit c dt (nat \<lfloor>T / dt\<rfloor>))\<rparr>"
    using rossler_valid [OF assms, of c] by blast
  then show ?thesis
    by (simp add: row_orbit)
qed


lemma linspace_zero: "linspace a b 0 = Inr []"
  by (simp add: linspace_def)



section \<open>The claims of the specification\<close>

subsection \<open>The vector field and the step\<close>

text \<open>
  Claim C4. For every state \<open>(x, y, z)\<close> and every real \<open>c\<close>, the vector field \<open>du\<close>
  returns the derivative \<open>(-y - z, x + a*y, b + z*(x - c))\<close> with \<open>a = b = 0.2\<close>. It is a
  total function of its two arguments: it returns a state for every input, never an
  error, and touches no state.
\<close>

theorem du_formula:
  "du (x, y, z) c = (- y - z, x + 0.2 * y, 0.2 + z * (x - c))"
  by simp

text \<open>
  Claim C3. For every previous state, step size and parameter \<open>c\<close>, whatever the time
  argument, one call of \<open>rk4_step\<close> returns the classical Runge-Kutta update of the
  specification taken with the field \<open>du\<close>.
\<close>

theorem rk4_step_classical:
  "rk4_step c u_prev dt t_current = rk4_classical du u_prev dt c"
  by (simp add: rk4_step_def rk4_classical_def)

text \<open>
  Claim C10. The \<open>t_current\<close> argument of \<open>rk4_step\<close> does not influence its result, and
  the body of the driver loop computes the same buffer when the time it passes,
  \<open>delta_t * i\<close>, is replaced by any other value: the integration is autonomous.
\<close>

theorem rk4_step_autonomous:
  "rk4_step c s dt t1 = rk4_step c s dt t2 \<and>
   for_loop_iter c dt (i # rest) u =
     bind_err (getitem u (i - 1)) (\<lambda>u_prev.
     bind_err (setitem u i (rk4_step c u_prev dt t2)) (\<lambda>u'.
     for_loop_iter c dt rest u'))"
proof
  show "rk4_step c s dt t1 = rk4_step c s dt t2"
    by (simp add: rk4_step_def)
next
  have "\<And>w. rk4_step c w dt (dt * real_of_int i) = rk4_step c w dt t2"
    by (simp add: rk4_step_def)
  then show "for_loop_iter c dt (i # rest) u =
     bind_err (getitem u (i - 1)) (\<lambda>u_prev.
     bind_err (setitem u i (rk4_step c u_prev dt t2)) (\<lambda>u'.
     for_loop_iter c dt rest u'))"
    by (simp add: Let_def)
qed

subsection \<open>The trajectory\<close>



text \<open>
  Claim C1. Row 0 of the data frame that \<open>rossler\<close> returns is claimed to be the initial
  condition \<open>(0, 0, 0)\<close>. The loop runs over \<open>range(n)\<close> and so overwrites slot 0 with
  the successor of the origin: on the module's own test call \<open>rossler(1)\<close> (with
  \<open>T = 500\<close>, \<open>dt = 0.001\<close>) row 0 is the state below, which is not the origin.
\<close>

theorem rossler_default_row0:
  "\<exists>df. rossler 1 500 0.001 = Inr df \<and>
     row df 0 = (- (79973333332667 / 800000000000000000000), - (4999 / 150000000000000),
                 9595201599360239900023996001 / 48000000000000000000000000000000) \<and>
     row df 0 \<noteq> (0, 0, 0)"
proof -
  have fl: "\<lfloor>500 / 0.001 :: real\<rfloor> = 500000" by simp
  obtain df where df: "rossler 1 500 0.001 = Inr df"
     "\<forall>i < nat \<lfloor>500 / 0.001 :: real\<rfloor>. row df i = orbit 1 0.001 (nat \<lfloor>500 / 0.001 :: real\<rfloor>) ! i"
    using rossler_rows [of 500 "0.001" 1] by auto
  have "row df 0 = orbit 1 0.001 500000 ! 0"
    using df(2) unfolding fl by simp
  also have "\<dots> = rk4_step 1 (0, 0, 0) 0.001 0"
    by (rule orbit_0) simp
  also have "\<dots> = (- (79973333332667 / 800000000000000000000), - (4999 / 150000000000000),
                 9595201599360239900023996001 / 48000000000000000000000000000000)"
    by (simp add: rk4_step_def)
  finally show ?thesis
    using df(1) by auto
qed





subsection \<open>The time grid\<close>




subsection \<open>Parameters outside the valid range\<close>




text \<open>
  Claim C9, as the specification states it, says that a call with \<open>T > 0\<close>, \<open>dt > 0\<close>
  and \<open>floor (T / dt) < 1\<close> is an error. The call with \<open>T = 0.0005\<close> and \<open>dt = 0.001\<close>
  returns an empty data frame.
\<close>

theorem rossler_half_step_returns:
  "(0::real) < 0.0005 \<and> (0::real) < 0.001 \<and> \<lfloor>0.0005 / 0.001 :: real\<rfloor> < 1 \<and>
   rossler 1 0.0005 0.001 = Inr \<lparr>df_index = [], df_t = [], df_x = [], df_y = [], df_z = []\<rparr>"
proof -
  have "py_int (0.0005 / 0.001) = 0"
    by (simp add: py_int_def)
  then have "rossler 1 0.0005 0.001 =
      Inr \<lparr>df_index = [], df_t = [], df_x = [], df_y = [], df_z = []\<rparr>"
    using rossler_returns [of "0.001" "0.0005" "[]" 1] by (simp add: linspace_zero orbit_def)
  then show ?thesis by simp
qed

text \<open>
  Claim C9, amended. For every \<open>c\<close> and all \<open>T > 0\<close>, \<open>dt > 0\<close> with
  \<open>floor (T / dt) < 1\<close>, \<open>rossler\<close> raises nothing and returns the empty data frame: no
  rows, every column empty.
\<close>

theorem rossler_short_is_empty:
  assumes "0 < T" and "0 < dt" and "\<lfloor>T / dt\<rfloor> < 1"
  shows "rossler c T dt = Inr \<lparr>df_index = [], df_t = [], df_x = [], df_y = [], df_z = []\<rparr>"
proof -
  have "0 \<le> \<lfloor>T / dt\<rfloor>" using py_int_pos [OF assms(1,2)] by simp
  then have z: "\<lfloor>T / dt\<rfloor> = 0" using assms(3) by linarith
  then have "py_int (T / dt) = 0" using py_int_pos [OF assms(1,2)] by simp
  then show ?thesis
    using rossler_returns [of dt T "[]" c] assms(2) by (simp add: linspace_zero orbit_def)
qed

theorem rossler_short_is_empty_witness:
  "(0::real) < 1/2 \<and> (0::real) < 1 \<and> \<lfloor>(1/2) / 1 :: real\<rfloor> < 1 \<and>
   rossler 0 (1/2) 1 = Inr \<lparr>df_index = [], df_t = [], df_x = [], df_y = [], df_z = []\<rparr>"
  using rossler_short_is_empty [of "1/2" 1 0] by simp

end
